theory Spec2Isabelle
  imports Main "HOL-Library.Word"
begin

unbundle bit_operations_syntax

section \<open>Data model of amount.h and commodity.h\<close>

text \<open>
  Objects live in heaps indexed by address. A pointer that the code dereferences without
  a test is an address; a pointer that the code tests against NULL is an optional address.
  Isabelle admits no name that ends in an underscore: the fields \<open>commodity_\<close>,
  \<open>parent_\<close> and \<open>mapping_key_\<close> of the source are \<open>commodity_ptr\<close>,
  \<open>parent_ptr\<close> and \<open>mapping_key_str\<close> here, and \<open>note\<close> is \<open>note_str\<close>.
  Reading an address that holds no object is the undefined behaviour of C++ and is the
  failure \<open>Undefined\<close> of the model; an exception of class \<open>amount_error\<close> is the
  failure \<open>Throw\<close>, with the discriminators of the specification's error taxonomy.
\<close>

type_synonym addr = nat
type_synonym moment_t = int
type_synonym precision_t = "16 word"
type_synonym flags_t = "8 word"
type_synonym ident_t = "32 word"

datatype amount_error =
    ParseError
  | IncompatibleCommodities
  | DivideByZero
  | PrecisionLoss
  | NotConvertible
  | UnknownCommodity
  | InvalidState

datatype failure = Throw amount_error | Undefined

type_synonym 'a result = "failure + 'a"

definition bind_result :: "'a result \<Rightarrow> ('a \<Rightarrow> 'b result) \<Rightarrow> 'b result" where
  "bind_result r f = (case r of Inl e \<Rightarrow> Inl e | Inr x \<Rightarrow> f x)"

definition deref :: "(addr \<rightharpoonup> 'a) \<Rightarrow> addr \<Rightarrow> 'a result" where
  "deref h p = (case h p of None \<Rightarrow> Inl Undefined | Some x \<Rightarrow> Inr x)"

definition deref_opt :: "addr option \<Rightarrow> addr result" where
  "deref_opt p = (case p of None \<Rightarrow> Inl Undefined | Some a \<Rightarrow> Inr a)"

text \<open>
  Modelled from the spec: class \<open>bigint_t\<close> is only declared in amount.h. The
  specification's BigRational is a signed numerator and a non-negative decimal scale, the
  value being \<open>val / 10 ^ prec\<close>; the mark that suppresses display rounding is kept with
  the quantity, since \<open>amount_t\<close> has no field for it.
\<close>

record bigint_t =
  val :: int
  prec :: nat
  keep_prec :: bool

record amount_t =
  quantity :: "bigint_t option"
  commodity_ptr :: "addr option"

record history_t =
  prices :: "(moment_t \<times> amount_t) list"
  last_lookup :: moment_t

record commodity_base_t =
  flags :: flags_t
  symbol :: string
  precision :: precision_t
  name :: "string option"
  note_str :: "string option"
  history :: "history_t option"
  smaller :: "amount_t option"
  larger :: "amount_t option"

record commodity_t =
  base :: addr
  parent_ptr :: addr
  ident :: ident_t
  qualified_symbol :: "string option"
  mapping_key_str :: "string option"
  annotated :: bool

record annotation_t =
  price :: "amount_t option"
  date :: "moment_t option"
  tag :: "string option"

text \<open>
  An object of class \<open>annotated_commodity_t\<close> is its \<open>commodity_t\<close> part together with
  the fields \<open>ptr\<close> and \<open>details\<close>. The dynamic class of an object in the heap is the
  constructor of \<open>commodity_obj\<close>; the field \<open>annotated\<close> is stored separately, as in the
  source.
\<close>

record annotated_commodity_t =
  super :: commodity_t
  ptr :: addr
  details :: annotation_t

datatype commodity_obj =
    Plain commodity_t
  | Annotated annotated_commodity_t

fun as_commodity :: "commodity_obj \<Rightarrow> commodity_t" where
  "as_commodity (Plain c) = c"
| "as_commodity (Annotated ac) = super ac"

text \<open>
  The pool's \<open>get_quote\<close> signal holds callbacks of the host and is modelled apart from the
  record, as the list of its slots.
\<close>

record commodity_pool_t =
  commodities :: "addr list"
  null_commodity :: "addr option"
  default_commodity :: "addr option"

text \<open>
  The state holds the heaps and the static members of \<open>amount_t\<close> that the model
  reads: \<open>default_pool\<close> and the three toggles for lot details, which amount.h
  documents as false by default. The static members \<open>keep_base\<close> and \<open>full_strings\<close>
  concern printing and are left out.
\<close>

record state =
  base_heap :: "addr \<rightharpoonup> commodity_base_t"
  commodity_heap :: "addr \<rightharpoonup> commodity_obj"
  pool_heap :: "addr \<rightharpoonup> commodity_pool_t"
  default_pool :: "addr option"
  keep_price :: bool
  keep_date :: bool
  keep_tag :: bool

section \<open>Amounts: commodity access (amount.h)\<close>

text \<open>
  \<open>amount_t()\<close> sets both pointers to NULL. The copy constructor copies an amount that
  has a quantity through \<open>_copy\<close> and otherwise sets \<open>commodity_ptr\<close> to NULL, whatever
  the source's \<open>commodity_ptr\<close> is. \<open>_copy\<close> is defined in amount.cc; amount.h documents
  that both the value and the commodity are copied.
\<close>

definition amount_t_ctor :: amount_t where
  "amount_t_ctor = \<lparr>quantity = None, commodity_ptr = None\<rparr>"

definition amount_t_copy :: "amount_t \<Rightarrow> amount_t" where
  "amount_t_copy amt =
     (if quantity amt \<noteq> None then amt else \<lparr>quantity = None, commodity_ptr = None\<rparr>)"

definition has_commodity :: "state \<Rightarrow> amount_t \<Rightarrow> bool result" where
  "has_commodity st a =
     (case commodity_ptr a of
        None \<Rightarrow> Inr False
      | Some c \<Rightarrow>
          bind_result (deref (commodity_heap st) c) (\<lambda>obj.
          bind_result (deref (pool_heap st) (parent_ptr (as_commodity obj))) (\<lambda>pool.
          Inr (Some c \<noteq> null_commodity pool))))"

definition commodity :: "state \<Rightarrow> amount_t \<Rightarrow> addr result" where
  "commodity st a =
     bind_result (has_commodity st a) (\<lambda>h.
       if h then deref_opt (commodity_ptr a)
       else bind_result (deref_opt (default_pool st)) (\<lambda>dp.
            bind_result (deref (pool_heap st) dp) (\<lambda>pool.
            deref_opt (null_commodity pool))))"

definition is_null :: "state \<Rightarrow> amount_t \<Rightarrow> bool result" where
  "is_null st a =
     (if quantity a \<noteq> None then Inr False
      else bind_result (has_commodity st a) (\<lambda>h. Inr (\<not> h)))"

definition set_commodity :: "amount_t \<Rightarrow> addr \<Rightarrow> amount_t" where
  "set_commodity a comm = a\<lparr>commodity_ptr := Some comm\<rparr>"

definition clear_commodity :: "amount_t \<Rightarrow> amount_t" where
  "clear_commodity a = a\<lparr>commodity_ptr := None\<rparr>"

section \<open>The quote hook of the pool\<close>

text \<open>
  \<open>first_initialized\<close> is the combiner of the signal \<open>get_quote\<close>. The signal hands it
  the range of pending slot calls; dereferencing the iterator calls the slot, and
  advancing it moves to the next slot. A slot is host code: it takes the world \<open>'w\<close> it
  runs in and returns its answer with the world it leaves. The loop returns at the first
  answer that is set, and returns \<open>T()\<close>, the empty optional, at the end of the range.
  \<open>return *first\<close> returns the optional by value, so the value it holds is copied with
  the copy constructor of its type, which is the argument \<open>copy\<close>. For \<open>get_quote\<close>
  the type \<open>T\<close> is \<open>optional<amount_t>\<close> and the copy constructor is the one of
  \<open>amount_t\<close>, which gives the null amount for an amount without a quantity.
\<close>

type_synonym ('a, 'w) slot_call = "'w \<Rightarrow> 'a option \<times> 'w"

fun first_initialized ::
  "('a \<Rightarrow> 'a) \<Rightarrow> ('a, 'w) slot_call list \<Rightarrow> 'w \<Rightarrow> 'a option \<times> 'w" where
  "first_initialized copy [] w = (None, w)"
| "first_initialized copy (call # rest) w =
     (case call w of
        (Some v, w') \<Rightarrow> (Some (copy v), w')
      | (None, w') \<Rightarrow> first_initialized copy rest w')"

type_synonym 'w quote_slot =
  "addr \<Rightarrow> moment_t option \<Rightarrow> moment_t option \<Rightarrow> moment_t option \<Rightarrow> (amount_t, 'w) slot_call"

definition get_quote ::
  "'w quote_slot list \<Rightarrow> addr \<Rightarrow> moment_t option \<Rightarrow> moment_t option \<Rightarrow> moment_t option
     \<Rightarrow> 'w \<Rightarrow> amount_t option \<times> 'w" where
  "get_quote slots comm dt moment lst =
     first_initialized amount_t_copy (map (\<lambda>slot. slot comm dt moment lst) slots)"

text \<open>
  For comparison with the specification's wording: the answers of all the callbacks, each
  consulted in registration order in the world its predecessors left.
\<close>

fun answers_in_order :: "('a, 'w) slot_call list \<Rightarrow> 'w \<Rightarrow> 'a option list" where
  "answers_in_order [] w = []"
| "answers_in_order (call # rest) w =
     (case call w of (r, w') \<Rightarrow> r # answers_in_order rest w')"

definition first_some :: "'a option list \<Rightarrow> 'a option" where
  "first_some rs = (case dropWhile (\<lambda>r. r = None) rs of [] \<Rightarrow> None | r # _ \<Rightarrow> r)"

section \<open>A concrete pool\<close>

text \<open>
  One pool at address 0, which is the default pool. Its null commodity is the object at
  address 0; the commodity \<open>$\<close> with display precision 2 is at address 1; an annotated
  variant of \<open>$\<close>, tagged \<open>lot1\<close>, is at address 2 and shares the base of its referent.
\<close>

definition example_state :: state where
  "example_state =
     \<lparr>base_heap =
        [0 \<mapsto> \<lparr>flags = 0, symbol = '''', precision = 0, name = None, note_str = None,
               history = None, smaller = None, larger = None\<rparr>,
         1 \<mapsto> \<lparr>flags = 0, symbol = ''$'', precision = 2, name = None, note_str = None,
               history = None, smaller = None, larger = None\<rparr>],
      commodity_heap =
        [0 \<mapsto> Plain \<lparr>base = 0, parent_ptr = 0, ident = 0, qualified_symbol = None,
                      mapping_key_str = None, annotated = False\<rparr>,
         1 \<mapsto> Plain \<lparr>base = 1, parent_ptr = 0, ident = 1, qualified_symbol = None,
                      mapping_key_str = None, annotated = False\<rparr>,
         2 \<mapsto> Annotated
               \<lparr>super = \<lparr>base = 1, parent_ptr = 0, ident = 2, qualified_symbol = None,
                          mapping_key_str = Some ''$ (lot1)'', annotated = True\<rparr>,
                ptr = 1,
                details = \<lparr>price = None, date = None, tag = Some ''lot1''\<rparr>\<rparr>],
      pool_heap =
        [0 \<mapsto> \<lparr>commodities = [0, 1, 2], null_commodity = Some 0,
               default_commodity = None\<rparr>],
      default_pool = Some 0, keep_price = False, keep_date = False, keep_tag = False\<rparr>"

section \<open>Commodities (commodity.h)\<close>

text \<open>
  The constructors of \<open>commodity_t\<close> and \<open>annotated_commodity_t\<close>. Neither sets
  \<open>ident\<close>: its indeterminate initial value is the argument \<open>ident0\<close>. The constructor
  of \<open>annotated_commodity_t\<close> reads \<open>parent_ptr\<close> and \<open>base\<close> through \<open>_ptr\<close>
  and copies the annotation. Copying an \<open>optional<amount_t>\<close> copies the amount it
  holds with the copy constructor of \<open>amount_t\<close>.
\<close>

definition copy_optional_amount :: "amount_t option \<Rightarrow> amount_t option" where
  "copy_optional_amount arg = map_option amount_t_copy arg"

definition annotation_t_copy :: "annotation_t \<Rightarrow> annotation_t" where
  "annotation_t_copy d = d\<lparr>price := copy_optional_amount (price d)\<rparr>"

definition commodity_t_ctor :: "addr \<Rightarrow> addr \<Rightarrow> ident_t \<Rightarrow> commodity_t" where
  "commodity_t_ctor parent0 base0 ident0 =
     \<lparr>base = base0, parent_ptr = parent0, ident = ident0, qualified_symbol = None,
      mapping_key_str = None, annotated = False\<rparr>"

definition annotated_commodity_t_ctor ::
  "state \<Rightarrow> addr \<Rightarrow> annotation_t \<Rightarrow> ident_t \<Rightarrow> annotated_commodity_t result" where
  "annotated_commodity_t_ctor st ptr0 details0 ident0 =
     bind_result (deref (commodity_heap st) ptr0) (\<lambda>obj.
       Inr \<lparr>super = (commodity_t_ctor (parent_ptr (as_commodity obj))
                       (base (as_commodity obj)) ident0)\<lparr>annotated := True\<rparr>,
            ptr = ptr0, details = annotation_t_copy details0\<rparr>)"

definition referent :: "annotated_commodity_t \<Rightarrow> addr" where
  "referent ac = ptr ac"

text \<open>
  The accessors read and write the base object through the handle's \<open>base\<close> pointer:
  \<open>base->field\<close> and \<open>base->field = arg\<close>.
\<close>

definition read_base :: "state \<Rightarrow> addr \<Rightarrow> (commodity_base_t \<Rightarrow> 'a) \<Rightarrow> 'a result" where
  "read_base st comm field =
     bind_result (deref (commodity_heap st) comm) (\<lambda>obj.
     bind_result (deref (base_heap st) (base (as_commodity obj))) (\<lambda>b.
     Inr (field b)))"

definition write_base ::
  "state \<Rightarrow> addr \<Rightarrow> (commodity_base_t \<Rightarrow> commodity_base_t) \<Rightarrow> state result" where
  "write_base st comm f =
     bind_result (deref (commodity_heap st) comm) (\<lambda>obj.
     bind_result (deref (base_heap st) (base (as_commodity obj))) (\<lambda>b.
     Inr (st\<lparr>base_heap := (base_heap st)(base (as_commodity obj) \<mapsto> f b)\<rparr>)))"

definition name_of :: "state \<Rightarrow> addr \<Rightarrow> string option result" where
  "name_of st comm = read_base st comm name"

definition set_name :: "state \<Rightarrow> addr \<Rightarrow> string option \<Rightarrow> state result" where
  "set_name st comm arg = write_base st comm (\<lambda>b. b\<lparr>name := arg\<rparr>)"

definition note_of :: "state \<Rightarrow> addr \<Rightarrow> string option result" where
  "note_of st comm = read_base st comm note_str"

definition set_note :: "state \<Rightarrow> addr \<Rightarrow> string option \<Rightarrow> state result" where
  "set_note st comm arg = write_base st comm (\<lambda>b. b\<lparr>note_str := arg\<rparr>)"

definition precision_of :: "state \<Rightarrow> addr \<Rightarrow> precision_t result" where
  "precision_of st comm = read_base st comm precision"

definition set_precision :: "state \<Rightarrow> addr \<Rightarrow> precision_t \<Rightarrow> state result" where
  "set_precision st comm arg = write_base st comm (\<lambda>b. b\<lparr>precision := arg\<rparr>)"

definition flags_of :: "state \<Rightarrow> addr \<Rightarrow> flags_t result" where
  "flags_of st comm = read_base st comm flags"

definition set_flags :: "state \<Rightarrow> addr \<Rightarrow> flags_t \<Rightarrow> state result" where
  "set_flags st comm arg = write_base st comm (\<lambda>b. b\<lparr>flags := arg\<rparr>)"

definition add_flags :: "state \<Rightarrow> addr \<Rightarrow> flags_t \<Rightarrow> state result" where
  "add_flags st comm arg = write_base st comm (\<lambda>b. b\<lparr>flags := flags b OR arg\<rparr>)"

definition drop_flags :: "state \<Rightarrow> addr \<Rightarrow> flags_t \<Rightarrow> state result" where
  "drop_flags st comm arg = write_base st comm (\<lambda>b. b\<lparr>flags := flags b AND NOT arg\<rparr>)"

definition set_smaller :: "state \<Rightarrow> addr \<Rightarrow> amount_t option \<Rightarrow> state result" where
  "set_smaller st comm arg =
     write_base st comm (\<lambda>b. b\<lparr>smaller := copy_optional_amount arg\<rparr>)"

definition set_larger :: "state \<Rightarrow> addr \<Rightarrow> amount_t option \<Rightarrow> state result" where
  "set_larger st comm arg =
     write_base st comm (\<lambda>b. b\<lparr>larger := copy_optional_amount arg\<rparr>)"

text \<open>
  Objects are created at addresses that hold no object. The pool, whose code is in
  commodity.cc, assigns \<open>ident\<close>, \<open>qualified_symbol\<close> and \<open>mapping_key_str\<close> of the
  commodities it creates; \<open>assign_keys\<close> is that assignment, which leaves the other
  fields as the constructor set them.
\<close>

definition new_base :: "state \<Rightarrow> addr \<Rightarrow> commodity_base_t \<Rightarrow> state" where
  "new_base st a b = st\<lparr>base_heap := (base_heap st)(a \<mapsto> b)\<rparr>"

definition new_commodity :: "state \<Rightarrow> addr \<Rightarrow> commodity_obj \<Rightarrow> state" where
  "new_commodity st a obj = st\<lparr>commodity_heap := (commodity_heap st)(a \<mapsto> obj)\<rparr>"

fun assign_keys ::
  "commodity_obj \<Rightarrow> ident_t \<Rightarrow> string option \<Rightarrow> string option \<Rightarrow> commodity_obj" where
  "assign_keys (Plain c) i q k =
     Plain (c\<lparr>ident := i, qualified_symbol := q, mapping_key_str := k\<rparr>)"
| "assign_keys (Annotated ac) i q k =
     Annotated (ac\<lparr>super := (super ac)\<lparr>ident := i, qualified_symbol := q,
                                         mapping_key_str := k\<rparr>\<rparr>)"

definition empty_state :: state where
  "empty_state =
     \<lparr>base_heap = Map.empty, commodity_heap = Map.empty, pool_heap = Map.empty,
      default_pool = None, keep_price = False, keep_date = False, keep_tag = False\<rparr>"

text \<open>
  The states that the constructors and the accessors of commodity.h produce from the
  state without objects. Every setter is \<open>write_base\<close> with the update of one field.
\<close>

inductive reachable :: "state \<Rightarrow> bool" where
  r_empty: "reachable empty_state"
| r_base: "reachable st \<Longrightarrow> a \<notin> dom (base_heap st) \<Longrightarrow> reachable (new_base st a b)"
| r_plain:
    "reachable st \<Longrightarrow> a \<notin> dom (commodity_heap st) \<Longrightarrow> b \<in> dom (base_heap st) \<Longrightarrow>
     reachable (new_commodity st a (Plain (commodity_t_ctor p b i)))"
| r_annotated:
    "reachable st \<Longrightarrow> a \<notin> dom (commodity_heap st) \<Longrightarrow>
     annotated_commodity_t_ctor st p d i = Inr ac \<Longrightarrow>
     reachable (new_commodity st a (Annotated ac))"
| r_keys:
    "reachable st \<Longrightarrow> commodity_heap st a = Some obj \<Longrightarrow>
     reachable (new_commodity st a (assign_keys obj i q k))"
| r_write: "reachable st \<Longrightarrow> write_base st c f = Inr st' \<Longrightarrow> reachable st'"
| r_pools: "reachable st \<Longrightarrow> reachable (st\<lparr>pool_heap := ph, default_pool := dp\<rparr>)"
| r_toggles:
    "reachable st \<Longrightarrow> reachable (st\<lparr>keep_price := kp, keep_date := kd, keep_tag := kt\<rparr>)"

definition shares_base :: "state \<Rightarrow> bool" where
  "shares_base st \<longleftrightarrow>
     (\<forall>a obj. commodity_heap st a = Some obj \<longrightarrow>
        base (as_commodity obj) \<in> dom (base_heap st)
        \<and> (case obj of
             Plain c \<Rightarrow> True
           | Annotated ac \<Rightarrow>
               annotated (super ac)
               \<and> (\<exists>r. commodity_heap st (ptr ac) = Some r
                      \<and> base (as_commodity r) = base (super ac))))"

definition annotated_example :: state where
  "annotated_example =
     new_commodity
       (new_commodity
          (new_base empty_state 1
             \<lparr>flags = 0, symbol = ''$'', precision = 2, name = None, note_str = None,
              history = None, smaller = None, larger = None\<rparr>)
          1 (Plain (commodity_t_ctor 0 1 1)))
       2 (Annotated
            \<lparr>super = (commodity_t_ctor 0 1 2)\<lparr>annotated := True\<rparr>, ptr = 1,
             details = \<lparr>price = None, date = None, tag = Some ''lot1''\<rparr>\<rparr>)"

section \<open>Equality of commodities and of amounts\<close>

text \<open>
  \<open>commodity_t::operator==\<close> is virtual. For an object of class \<open>commodity_t\<close> its body
  is the one of commodity.h: when the argument's \<open>annotated\<close> field is set, the call is
  turned around, \<open>comm == *this\<close>, and dispatched on the class of \<open>comm\<close>; otherwise
  the \<open>base\<close> pointers are compared. Two objects of class \<open>commodity_t\<close> that both
  have \<open>annotated\<close> set call each other without end, which is \<open>Undefined\<close>. The
  override in \<open>annotated_commodity_t\<close> is declared in commodity.h and defined in
  commodity.cc: it is the parameter \<open>ann_eq\<close>, given the addresses of \<open>*this\<close> and of
  the argument.
\<close>

type_synonym annotated_eq = "state \<Rightarrow> addr \<Rightarrow> addr \<Rightarrow> bool result"

definition commodity_eq :: "annotated_eq \<Rightarrow> state \<Rightarrow> addr \<Rightarrow> addr \<Rightarrow> bool result" where
  "commodity_eq ann_eq st this comm =
     bind_result (deref (commodity_heap st) this) (\<lambda>this_obj.
       case this_obj of
         Annotated _ \<Rightarrow> ann_eq st this comm
       | Plain c \<Rightarrow>
           bind_result (deref (commodity_heap st) comm) (\<lambda>comm_obj.
             if annotated (as_commodity comm_obj) then
               (case comm_obj of
                  Annotated _ \<Rightarrow> ann_eq st comm this
                | Plain c' \<Rightarrow>
                    if annotated c then Inl Undefined else Inr (base c' = base c))
             else Inr (base c = base (as_commodity comm_obj))))"

text \<open>
  \<open>amount_t::operator==\<close>. The operator \<open>!=\<close> of commodities is the negation of
  \<open>==\<close>. \<open>compare\<close> is declared in amount.h and defined in amount.cc: it is the
  parameter \<open>cmp\<close>, which returns an integer or fails.
\<close>

type_synonym compare_fn = "state \<Rightarrow> amount_t \<Rightarrow> amount_t \<Rightarrow> int result"

definition operator_eq ::
  "compare_fn \<Rightarrow> annotated_eq \<Rightarrow> state \<Rightarrow> amount_t \<Rightarrow> amount_t \<Rightarrow> bool result" where
  "operator_eq cmp ann_eq st a amt =
     bind_result (commodity st a) (\<lambda>c.
     bind_result (commodity st amt) (\<lambda>c'.
     bind_result (commodity_eq ann_eq st c c') (\<lambda>same.
       if \<not> same then Inr False
       else bind_result (cmp st a amt) (\<lambda>n. Inr (n = 0)))))"

section \<open>Arithmetic of amounts (amount.cc), from the specification\<close>

text \<open>
  Modelled from the spec: the arithmetic of \<open>bigint_t\<close> is in amount.cc. Section 4.1:
  addition and subtraction align both numerators to the larger scale, which is the scale
  of the result. \<open>scaled q s\<close> is the numerator of \<open>q\<close> at a scale \<open>s\<close> that is at
  least \<open>prec q\<close>. The mark of the left operand stays with the result.
\<close>

definition scaled :: "bigint_t \<Rightarrow> nat \<Rightarrow> int" where
  "scaled q s = val q * 10 ^ (s - prec q)"

text \<open>Modelled from the spec: \<open>add(a,b)\<close> of section 4.1 (amount.cc).\<close>

definition bigint_add :: "bigint_t \<Rightarrow> bigint_t \<Rightarrow> bigint_t" where
  "bigint_add x y =
     (let s = max (prec x) (prec y)
      in \<lparr>val = scaled x s + scaled y s, prec = s, keep_prec = keep_prec x\<rparr>)"

text \<open>Modelled from the spec: \<open>sub(a,b)\<close> of section 4.1 (amount.cc).\<close>

definition bigint_sub :: "bigint_t \<Rightarrow> bigint_t \<Rightarrow> bigint_t" where
  "bigint_sub x y =
     (let s = max (prec x) (prec y)
      in \<lparr>val = scaled x s - scaled y s, prec = s, keep_prec = keep_prec x\<rparr>)"

text \<open>
  Modelled from the spec: \<open>mul(a,b)\<close> of section 4.1 (amount.cc): the product of the
  numerators at the sum of the scales.
\<close>

definition bigint_mul :: "bigint_t \<Rightarrow> bigint_t \<Rightarrow> bigint_t" where
  "bigint_mul x y = \<lparr>val = val x * val y, prec = prec x + prec y, keep_prec = keep_prec x\<rparr>"

text \<open>
  Modelled from the spec: integer division with truncation toward zero, which section 4.1
  prescribes for \<open>div\<close> (amount.cc); \<open>div\<close> of HOL rounds toward minus infinity.
\<close>

definition tdiv :: "int \<Rightarrow> int \<Rightarrow> int" where
  "tdiv x y = sgn x * sgn y * (\<bar>x\<bar> div \<bar>y\<bar>)"

text \<open>
  Modelled from the spec: \<open>div(a,b)\<close> of section 4.1 (amount.cc). It fails with
  \<open>DivideByZero\<close> when the numerator of the divisor is 0. Otherwise the quotient is
  taken at the scale that lies \<open>MIN_EXTENDED_DIGITS\<close> = 6 past the larger operand scale,
  truncated toward zero; it is exact whenever the quotient has that scale.
\<close>

definition bigint_div :: "bigint_t \<Rightarrow> bigint_t \<Rightarrow> bigint_t result" where
  "bigint_div x y =
     (if val y = 0 then Inl (Throw DivideByZero)
      else
        (let s = max (prec x) (prec y) + 6
         in Inr \<lparr>val = tdiv (val x * 10 ^ (s - prec x + prec y)) (val y), prec = s,
                 keep_prec = keep_prec x\<rparr>))"

text \<open>
  Modelled from the spec: \<open>rescale_to(p)\<close> of section 4.1 (amount.cc): below the
  current scale the numerator is rounded half-to-even to \<open>p\<close> digits, above it the
  numerator is padded with powers of ten.
\<close>

definition rescale_to :: "nat \<Rightarrow> bigint_t \<Rightarrow> bigint_t" where
  "rescale_to p q =
     (if p < prec q then
        (let d = 10 ^ (prec q - p); n = val q div d; r = val q mod d
         in q\<lparr>val := (if 2 * r < d then n
                       else if d < 2 * r then n + 1
                       else if even n then n else n + 1),
              prec := p\<rparr>)
      else if prec q < p then q\<lparr>val := val q * 10 ^ (p - prec q), prec := p\<rparr>
      else q)"

text \<open>
  Modelled from the spec: the value of an amount in arithmetic (amount.cc). amount.h
  documents that an amount without a quantity is zero when it is used as a value.
\<close>

definition quantity_or_zero :: "amount_t \<Rightarrow> bigint_t" where
  "quantity_or_zero a =
     (case quantity a of None \<Rightarrow> \<lparr>val = 0, prec = 0, keep_prec = False\<rparr> | Some q \<Rightarrow> q)"


text \<open>
  Modelled from the spec: \<open>strip_annotations\<close> is declared in amount.h and defined in
  amount.cc. Section 4.2: it retains only the requested subset of the annotation; the
  subset of the arithmetic is the one of the toggles \<open>keep_price\<close>, \<open>keep_date\<close> and
  \<open>keep_tag\<close> (section 6, amount.h 113-129).
\<close>

definition kept_details :: "bool \<Rightarrow> bool \<Rightarrow> bool \<Rightarrow> annotation_t \<Rightarrow> annotation_t" where
  "kept_details kp kd kt d =
     \<lparr>price = (if kp then price d else None),
      date = (if kd then date d else None),
      tag = (if kt then tag d else None)\<rparr>"

text \<open>
  Modelled from the spec: the commodity that \<open>strip_annotations\<close> (amount.cc) leaves
  under the toggles. Section 4.2: it is the annotated variant that retains the kept
  subset, and the plain referent if nothing remains. It is described by the base of the
  plain commodity and the annotation kept, which is empty for a plain commodity; by
  section 3 two such commodities are equal iff their descriptions are.
\<close>

definition stripped :: "state \<Rightarrow> addr \<Rightarrow> (addr \<times> annotation_t) result" where
  "stripped st comm =
     bind_result (deref (commodity_heap st) comm) (\<lambda>obj.
       case obj of
         Plain c \<Rightarrow> Inr (base c, \<lparr>price = None, date = None, tag = None\<rparr>)
       | Annotated ac \<Rightarrow>
           bind_result (deref (commodity_heap st) (ptr ac)) (\<lambda>r.
             Inr (base (as_commodity r),
                  kept_details (keep_price st) (keep_date st) (keep_tag st) (details ac))))"

text \<open>
  Modelled from the spec: the commodity test of \<open>operator+=\<close> and \<open>operator-=\<close>
  (amount.cc). Section 4.2 and section 7: the operation fails with
  \<open>IncompatibleCommodities\<close> when the commodities are unequal, unless one operand has the
  anonymous (null) commodity. Section 8, scenario 2, and amount.h 117-125: a commodity
  and its annotated variant add without error when the toggle of the annotation is
  false, and fail when it is true; so unequal commodities fail only when they are still
  unequal after \<open>strip_annotations\<close> under the toggles.
\<close>

definition incompatible :: "annotated_eq \<Rightarrow> state \<Rightarrow> amount_t \<Rightarrow> amount_t \<Rightarrow> bool result" where
  "incompatible ann_eq st a amt =
     bind_result (has_commodity st a) (\<lambda>h.
     bind_result (has_commodity st amt) (\<lambda>h'.
       if h \<and> h' then
         bind_result (commodity st a) (\<lambda>c.
         bind_result (commodity st amt) (\<lambda>c'.
         bind_result (commodity_eq ann_eq st c c') (\<lambda>same.
           if same then Inr False
           else
             bind_result (stripped st c) (\<lambda>k.
             bind_result (stripped st c') (\<lambda>k'. Inr (k \<noteq> k'))))))
       else Inr False))"

text \<open>
  Modelled from the spec: \<open>operator+=\<close> and \<open>operator-=\<close> are declared in amount.h and
  defined in amount.cc. Section 4.2: if either operand is null the result is a copy of the
  other operand; unequal commodities fail as \<open>incompatible\<close> says; otherwise the
  quantities are combined by \<open>op\<close>, and the commodity of the result is the left operand's,
  or the right operand's when the left operand has the anonymous commodity.
\<close>

definition additive ::
  "(bigint_t \<Rightarrow> bigint_t \<Rightarrow> bigint_t) \<Rightarrow> annotated_eq \<Rightarrow> state \<Rightarrow> amount_t \<Rightarrow> amount_t
     \<Rightarrow> amount_t result" where
  "additive op ann_eq st a amt =
     bind_result (is_null st a) (\<lambda>na.
       if na then Inr amt
       else
         bind_result (is_null st amt) (\<lambda>nb.
           if nb then Inr a
           else
             bind_result (incompatible ann_eq st a amt) (\<lambda>inc.
               if inc then Inl (Throw IncompatibleCommodities)
               else
                 bind_result (has_commodity st a) (\<lambda>h.
                   Inr \<lparr>quantity = Some (op (quantity_or_zero a) (quantity_or_zero amt)),
                        commodity_ptr = (if h then commodity_ptr a else commodity_ptr amt)\<rparr>))))"

text \<open>Modelled from the spec: \<open>operator+=\<close> (amount.cc), section 4.2.\<close>

definition operator_plus_eq ::
  "annotated_eq \<Rightarrow> state \<Rightarrow> amount_t \<Rightarrow> amount_t \<Rightarrow> amount_t result" where
  "operator_plus_eq = additive bigint_add"

text \<open>Modelled from the spec: \<open>operator-=\<close> (amount.cc), section 4.2.\<close>

definition operator_minus_eq ::
  "annotated_eq \<Rightarrow> state \<Rightarrow> amount_t \<Rightarrow> amount_t \<Rightarrow> amount_t result" where
  "operator_minus_eq = additive bigint_sub"

text \<open>
  Modelled from the spec: \<open>operator*=\<close> (amount.cc), section 4.2: a null operand gives a
  copy of the other operand; otherwise the commodity of the result is the left operand's
  and the scale is the sum of the scales. The widening of the commodity's display
  precision, which section 4.2 allows as a transient side effect, is not modelled.
\<close>

definition operator_times_eq :: "state \<Rightarrow> amount_t \<Rightarrow> amount_t \<Rightarrow> amount_t result" where
  "operator_times_eq st a amt =
     bind_result (is_null st a) (\<lambda>na.
       if na then Inr amt
       else
         bind_result (is_null st amt) (\<lambda>nb.
           if nb then Inr a
           else
             Inr \<lparr>quantity = Some (bigint_mul (quantity_or_zero a) (quantity_or_zero amt)),
                  commodity_ptr = commodity_ptr a\<rparr>))"

text \<open>
  Modelled from the spec: \<open>operator/=\<close> (amount.cc). Section 4.1: division fails with
  \<open>DivideByZero\<close> when the numerator of the divisor is 0; section 4.2: \<open>0 / null\<close> is
  \<open>DivideByZero\<close>, the null divisor being zero as a value. Otherwise a null dividend
  gives a copy of the divisor, and the commodity of a quotient is the left operand's.
\<close>

definition operator_div_eq :: "state \<Rightarrow> amount_t \<Rightarrow> amount_t \<Rightarrow> amount_t result" where
  "operator_div_eq st a amt =
     (if val (quantity_or_zero amt) = 0 then Inl (Throw DivideByZero)
      else
        bind_result (is_null st a) (\<lambda>na.
          if na then Inr amt
          else
            bind_result (bigint_div (quantity_or_zero a) (quantity_or_zero amt)) (\<lambda>q.
              Inr \<lparr>quantity = Some q, commodity_ptr = commodity_ptr a\<rparr>)))"

section \<open>Rounding\<close>

text \<open>
  Modelled from the spec: \<open>round(precision_t)\<close> is declared in amount.h and defined in
  amount.cc. Section 4.2: \<open>round(p)\<close> rescales the quantity to \<open>p\<close>.
\<close>

definition round_prec :: "amount_t \<Rightarrow> precision_t \<Rightarrow> amount_t" where
  "round_prec a p = a\<lparr>quantity := map_option (rescale_to (unat p)) (quantity a)\<rparr>"

text \<open>
  \<open>amount_t::round()\<close> of amount.h: without a commodity it returns \<open>*this\<close>, which the
  copy constructor copies; with one it returns \<open>round(commodity().precision())\<close>.
\<close>

definition round_amt :: "state \<Rightarrow> amount_t \<Rightarrow> amount_t result" where
  "round_amt st a =
     bind_result (has_commodity st a) (\<lambda>h.
       if \<not> h then Inr (amount_t_copy a)
       else
         bind_result (commodity st a) (\<lambda>c.
         bind_result (precision_of st c) (\<lambda>p.
         Inr (round_prec a p))))"

section \<open>The creator function \<open>exact\<close>\<close>

text \<open>
  \<open>amount_t::exact\<close> of amount.h makes a default amount, calls \<open>parse\<close> on the string
  with the flag \<open>AMOUNT_PARSE_NO_MIGRATE\<close>, and returns the amount. \<open>parse(const string&,
  flags_t)\<close> asserts that the default pool is set and parses against it; without a
  default pool the assertion ends the program, or the null pool is dereferenced when
  assertions are compiled out, which is \<open>Undefined\<close>. The parser proper, \<open>parse(commodity_pool_t&,
  std::istream&, flags_t)\<close>, is defined in amount.cc: it is the parameter \<open>prs\<close>, which
  takes the state, the pool, the amount it is called on, the text and the flags, and
  returns the amount it leaves with the new state, or fails.
\<close>

definition AMOUNT_PARSE_NO_MIGRATE :: "8 word" where
  "AMOUNT_PARSE_NO_MIGRATE = 0x01"

definition AMOUNT_PARSE_NO_REDUCE :: "8 word" where
  "AMOUNT_PARSE_NO_REDUCE = 0x02"

type_synonym parse_fn =
  "state \<Rightarrow> addr \<Rightarrow> amount_t \<Rightarrow> string \<Rightarrow> 8 word \<Rightarrow> (amount_t \<times> state) result"

definition parse_string ::
  "parse_fn \<Rightarrow> state \<Rightarrow> amount_t \<Rightarrow> string \<Rightarrow> 8 word \<Rightarrow> (amount_t \<times> state) result" where
  "parse_string prs st a str fl =
     (case default_pool st of
        None \<Rightarrow> Inl Undefined
      | Some dp \<Rightarrow> prs st dp a str fl)"

definition exact :: "parse_fn \<Rightarrow> state \<Rightarrow> string \<Rightarrow> (amount_t \<times> state) result" where
  "exact prs st str =
     bind_result (parse_string prs st amount_t_ctor str AMOUNT_PARSE_NO_MIGRATE)
       (\<lambda>(temp, st'). Inr (amount_t_copy temp, st'))"

section \<open>Properties of the quote hook\<close>

lemma first_initialized_answers:
  "fst (first_initialized copy calls w) = map_option copy (first_some (answers_in_order calls w))"
  by (induction calls arbitrary: w)
     (auto simp: first_some_def split: prod.splits option.splits)

lemma first_initialized_prefix:
  "fst (first_initialized copy pre w) \<noteq> None \<Longrightarrow>
   first_initialized copy (pre @ post) w = first_initialized copy pre w"
  by (induction pre arbitrary: w) (auto split: prod.splits option.splits)

lemma first_initialized_all_none:
  "(\<forall>call \<in> set calls. \<forall>w'. fst (call w') = None) \<Longrightarrow>
   fst (first_initialized copy calls w) = None"
proof (induction calls arbitrary: w)
  case Nil
  show ?case by simp
next
  case (Cons call rest)
  from Cons.prems have "fst (call w) = None" by simp
  then obtain w' where cw: "call w = (None, w')" by (cases "call w") auto
  from Cons.prems have "\<forall>c \<in> set rest. \<forall>w'. fst (c w') = None" by simp
  from Cons.IH [OF this] cw show ?case by simp
qed

lemma amount_t_copy_with_quantity: "quantity v \<noteq> None \<Longrightarrow> amount_t_copy v = v"
  by (simp add: amount_t_copy_def)

text \<open>
  Claim C8. The result of \<open>get_quote\<close> on an ordered list of subscriber callbacks is the
  answer, returned by value, of the first callback, in registration order, that answers
  \<open>Some\<close>: the copy of that amount, which is the amount itself when it has a quantity.
  The result is \<open>None\<close> when the list is empty and when every callback answers
  \<open>None\<close>; and once a prefix of the list has produced \<open>Some\<close>, the callbacks
  registered after it are not consulted: neither the result nor the world depends on
  them.
\<close>

theorem get_quote_first_some:
  "get_quote [] c d m l w = (None, w)
   \<and> fst (get_quote slots c d m l w)
       = map_option amount_t_copy
           (first_some (answers_in_order (map (\<lambda>slot. slot c d m l) slots) w))
   \<and> (first_some (answers_in_order (map (\<lambda>slot. slot c d m l) slots) w) = Some v
        \<and> quantity v \<noteq> None
        \<longrightarrow> fst (get_quote slots c d m l w) = Some v)
   \<and> (fst (get_quote slots c d m l w) = None
        \<longleftrightarrow> first_some (answers_in_order (map (\<lambda>slot. slot c d m l) slots) w) = None)
   \<and> ((\<forall>slot \<in> set slots. \<forall>w'. fst (slot c d m l w') = None)
        \<longrightarrow> fst (get_quote slots c d m l w) = None)
   \<and> (fst (get_quote pre c d m l w) \<noteq> None
        \<longrightarrow> get_quote (pre @ post) c d m l w = get_quote pre c d m l w)"
proof (intro conjI impI)
  show "get_quote [] c d m l w = (None, w)"
    by (simp add: get_quote_def)
  show r: "fst (get_quote slots c d m l w)
          = map_option amount_t_copy
              (first_some (answers_in_order (map (\<lambda>slot. slot c d m l) slots) w))"
    unfolding get_quote_def by (rule first_initialized_answers)
  show "fst (get_quote slots c d m l w) = Some v"
    if "first_some (answers_in_order (map (\<lambda>slot. slot c d m l) slots) w) = Some v
        \<and> quantity v \<noteq> None"
    using that r by (simp add: amount_t_copy_with_quantity)
  show "fst (get_quote slots c d m l w) = None
        \<longleftrightarrow> first_some (answers_in_order (map (\<lambda>slot. slot c d m l) slots) w) = None"
    using r by simp
  show "fst (get_quote slots c d m l w) = None"
    if "\<forall>slot \<in> set slots. \<forall>w'. fst (slot c d m l w') = None"
    unfolding get_quote_def using that
    by (intro first_initialized_all_none) auto
  show "get_quote (pre @ post) c d m l w = get_quote pre c d m l w"
    if "fst (get_quote pre c d m l w) \<noteq> None"
    using that first_initialized_prefix
    unfolding get_quote_def by (metis map_append)
qed

theorem get_quote_first_some_witness:
  "fst (get_quote [\<lambda>c d m l w. (None, Suc w)] 0 None None None (0::nat)) = None
   \<and> get_quote ([\<lambda>c d m l w. (None, Suc w),
                  \<lambda>c d m l w. (Some \<lparr>quantity = Some \<lparr>val = 2000, prec = 2, keep_prec = False\<rparr>,
                                       commodity_ptr = Some c\<rparr>, w + 10)]
                 @ [\<lambda>c d m l w. (Some \<lparr>quantity = None, commodity_ptr = None\<rparr>, w + 100)])
        0 None None None (0::nat)
      = (Some \<lparr>quantity = Some \<lparr>val = 2000, prec = 2, keep_prec = False\<rparr>,
               commodity_ptr = Some 0\<rparr>, 11)
   \<and> get_quote [\<lambda>c d m l w. (None, Suc w),
                 \<lambda>c d m l w. (Some \<lparr>quantity = None, commodity_ptr = Some c\<rparr>, w + 10)]
        0 None None None (0::nat)
      = (Some \<lparr>quantity = None, commodity_ptr = None\<rparr>, 11)"
  using get_quote_first_some
    [of 0 None None None "0::nat" "[\<lambda>c d m l w. (None, Suc w)]"
        "\<lparr>quantity = Some \<lparr>val = 2000, prec = 2, keep_prec = False\<rparr>, commodity_ptr = Some 0\<rparr>"
        "[\<lambda>c d m l w. (None, Suc w),
          \<lambda>c d m l w. (Some \<lparr>quantity = Some \<lparr>val = 2000, prec = 2, keep_prec = False\<rparr>,
                               commodity_ptr = Some c\<rparr>, w + 10)]"
        "[\<lambda>c d m l w. (Some \<lparr>quantity = None, commodity_ptr = None\<rparr>, w + 100)]"]
  by (simp add: get_quote_def amount_t_copy_def)

section \<open>Properties of commodity access\<close>

lemma bind_result_simps [simp]:
  "bind_result (Inl e) f = Inl e"
  "bind_result (Inr x) f = f x"
  by (simp_all add: bind_result_def)

lemma deref_simps [simp]:
  "h p = Some x \<Longrightarrow> deref h p = Inr x"
  "h p = None \<Longrightarrow> deref h p = Inl Undefined"
  by (simp_all add: deref_def)

lemma deref_opt_simps [simp]:
  "deref_opt (Some a) = Inr a"
  "deref_opt None = Inl Undefined"
  by (simp_all add: deref_opt_def)

lemma has_commodity_null_pointer:
  "commodity_ptr a = None \<Longrightarrow> has_commodity st a = Inr False"
  by (simp add: has_commodity_def)

lemma has_commodity_sentinel:
  assumes "commodity_ptr a = Some c" "commodity_heap st c = Some obj"
    and "pool_heap st (parent_ptr (as_commodity obj)) = Some pool"
    and "null_commodity pool = Some c"
  shows "has_commodity st a = Inr False"
  using assms by (simp add: has_commodity_def)

lemma commodity_without:
  assumes "has_commodity st a = Inr False"
    and "default_pool st = Some dp" "pool_heap st dp = Some dpool"
  shows "commodity st a = deref_opt (null_commodity dpool)"
  using assms by (simp add: commodity_def)

lemma commodity_never_absent:
  assumes "has_commodity st b = Inr h"
    and "default_pool st = Some dp" "pool_heap st dp = Some dpool"
    and "null_commodity dpool = Some nc"
  shows "\<exists>c. commodity st b = Inr c"
proof (cases h)
  case True
  with assms(1) obtain c where "commodity_ptr b = Some c"
    by (cases "commodity_ptr b") (auto simp: has_commodity_def)
  with True assms(1) show ?thesis by (simp add: commodity_def)
next
  case False
  with assms show ?thesis by (simp add: commodity_def)
qed

text \<open>
  Claim C10. With a default pool whose null commodity is set: an amount whose commodity
  pointer is NULL, or is the null commodity of the pool that owns the commodity it points
  to, has \<open>has_commodity()\<close> false and \<open>commodity()\<close> equal to the default pool's null
  commodity; \<open>commodity()\<close> yields a commodity for every amount whose pointer resolves;
  and after \<open>set_commodity\<close> with the null commodity of the commodity's own pool an
  amount answers \<open>has_commodity()\<close> and \<open>commodity()\<close> as it does after
  \<open>clear_commodity\<close>.
\<close>

theorem commodity_of_anonymous_amount:
  assumes "default_pool st = Some dp" and "pool_heap st dp = Some dpool"
    and "null_commodity dpool = Some nc"
    and "commodity_heap st c = Some obj"
    and "pool_heap st (parent_ptr (as_commodity obj)) = Some pool"
    and "null_commodity pool = Some c"
  shows "(commodity_ptr a = None \<or> commodity_ptr a = Some c
            \<longrightarrow> has_commodity st a = Inr False \<and> commodity st a = Inr nc)
       \<and> (\<forall>b h. has_commodity st b = Inr h \<longrightarrow> (\<exists>c'. commodity st b = Inr c'))
       \<and> has_commodity st (set_commodity a c) = has_commodity st (clear_commodity a)
       \<and> commodity st (set_commodity a c) = commodity st (clear_commodity a)"
proof (intro conjI impI allI)
  assume "commodity_ptr a = None \<or> commodity_ptr a = Some c"
  then show h: "has_commodity st a = Inr False"
    using assms has_commodity_null_pointer has_commodity_sentinel by blast
  show "commodity st a = Inr nc"
    using commodity_without [OF h assms(1,2)] assms(3) by simp
next
  fix b h assume "has_commodity st b = Inr h"
  then show "\<exists>c'. commodity st b = Inr c'"
    using assms(1-3) by (rule commodity_never_absent)
next
  have s: "has_commodity st (set_commodity a c) = Inr False"
    using assms(4-6) by (intro has_commodity_sentinel) (simp_all add: set_commodity_def)
  have k: "has_commodity st (clear_commodity a) = Inr False"
    by (simp add: has_commodity_null_pointer clear_commodity_def)
  show "has_commodity st (set_commodity a c) = has_commodity st (clear_commodity a)"
    using s k by simp
  show "commodity st (set_commodity a c) = commodity st (clear_commodity a)"
    using commodity_without [OF s assms(1,2)] commodity_without [OF k assms(1,2)] by simp
qed

lemma example_state_simps [simp]:
  "default_pool example_state = Some 0"
  "pool_heap example_state 0
     = Some \<lparr>commodities = [0, 1, 2], null_commodity = Some 0, default_commodity = None\<rparr>"
  "commodity_heap example_state 0
     = Some (Plain \<lparr>base = 0, parent_ptr = 0, ident = 0, qualified_symbol = None,
                    mapping_key_str = None, annotated = False\<rparr>)"
  "commodity_heap example_state (Suc 0)
     = Some (Plain \<lparr>base = 1, parent_ptr = 0, ident = 1, qualified_symbol = None,
                    mapping_key_str = None, annotated = False\<rparr>)"
  by (simp_all add: example_state_def)

theorem commodity_of_anonymous_amount_witness:
  "has_commodity example_state \<lparr>quantity = None, commodity_ptr = Some 0\<rparr> = Inr False
   \<and> commodity example_state \<lparr>quantity = None, commodity_ptr = Some 0\<rparr> = Inr 0
   \<and> commodity example_state (set_commodity \<lparr>quantity = None, commodity_ptr = Some 0\<rparr> 0)
       = commodity example_state (clear_commodity \<lparr>quantity = None, commodity_ptr = Some 0\<rparr>)"
  using commodity_of_anonymous_amount
    [of example_state 0
        "\<lparr>commodities = [0, 1, 2], null_commodity = Some 0, default_commodity = None\<rparr>" 0 0
        "Plain \<lparr>base = 0, parent_ptr = 0, ident = 0, qualified_symbol = None,
                mapping_key_str = None, annotated = False\<rparr>"
        "\<lparr>commodities = [0, 1, 2], null_commodity = Some 0, default_commodity = None\<rparr>"
        "\<lparr>quantity = None, commodity_ptr = Some 0\<rparr>"]
  by simp

text \<open>
  Claim C5, as amended. \<open>is_null\<close> is true exactly when the quantity is absent and
  \<open>has_commodity()\<close> is false; for an amount whose commodity is absent whenever its
  quantity is absent, \<open>is_null\<close> is true exactly when the quantity is absent.
\<close>

theorem is_null_iff:
  "(is_null st a = Inr True
      \<longleftrightarrow> quantity a = None \<and> has_commodity st a = Inr False)
   \<and> ((quantity a = None \<longrightarrow> has_commodity st a = Inr False)
        \<longrightarrow> (is_null st a = Inr True \<longleftrightarrow> quantity a = None))"
  by (cases "has_commodity st a") (auto simp: is_null_def)

theorem is_null_iff_witness:
  "is_null example_state \<lparr>quantity = None, commodity_ptr = None\<rparr> = Inr True
   \<and> has_commodity example_state \<lparr>quantity = None, commodity_ptr = None\<rparr> = Inr False"
  using is_null_iff [of example_state "\<lparr>quantity = None, commodity_ptr = None\<rparr>"]
  by (simp add: has_commodity_def)

text \<open>
  The claim as stated fails for the amount made by \<open>amount_t()\<close> followed by
  \<open>set_commodity\<close> of the commodity \<open>$\<close>: its quantity is absent and \<open>is_null\<close> is
  false.
\<close>

theorem is_null_counterexample:
  "\<not> (is_null example_state (set_commodity amount_t_ctor 1) = Inr True
        \<longleftrightarrow> quantity (set_commodity amount_t_ctor 1) = None)"
  by (simp add: is_null_def has_commodity_def set_commodity_def amount_t_ctor_def)

section \<open>Annotated commodities share the base of their referent\<close>

lemma write_base_result:
  assumes "write_base st c f = Inr st'"
  obtains obj b where "commodity_heap st c = Some obj"
    and "base_heap st (base (as_commodity obj)) = Some b"
    and "st' = st\<lparr>base_heap := (base_heap st)(base (as_commodity obj) \<mapsto> f b)\<rparr>"
proof -
  from assms obtain obj where o: "commodity_heap st c = Some obj"
    by (cases "commodity_heap st c") (auto simp: write_base_def)
  with assms obtain b where b: "base_heap st (base (as_commodity obj)) = Some b"
    by (cases "base_heap st (base (as_commodity obj))") (auto simp: write_base_def)
  with o assms have "st' = st\<lparr>base_heap := (base_heap st)(base (as_commodity obj) \<mapsto> f b)\<rparr>"
    by (auto simp: write_base_def)
  with o b show ?thesis by (rule that)
qed

lemma write_base_defined:
  assumes "commodity_heap st c = Some obj"
    and "base_heap st (base (as_commodity obj)) = Some b"
  shows "write_base st c f
           = Inr (st\<lparr>base_heap := (base_heap st)(base (as_commodity obj) \<mapsto> f b)\<rparr>)"
  using assms by (simp add: write_base_def)

lemma read_after_write:
  assumes "commodity_heap st c = Some obj" "commodity_heap st c' = Some obj'"
    and "base (as_commodity obj') = base (as_commodity obj)"
    and "base_heap st (base (as_commodity obj)) = Some b"
  shows "\<exists>st'. write_base st c f = Inr st' \<and> read_base st' c' field = Inr (field (f b))"
  using assms by (simp add: write_base_def read_base_def)

lemma as_commodity_assign_keys [simp]:
  "base (as_commodity (assign_keys obj i q k)) = base (as_commodity obj)"
  by (cases obj) simp_all

lemma shares_base_empty: "shares_base empty_state"
  by (simp add: shares_base_def empty_state_def)

lemma shares_base_new_base:
  assumes "shares_base st"
  shows "shares_base (new_base st a b)"
  using assms unfolding shares_base_def new_base_def
  by (auto split: commodity_obj.splits)

lemma shares_base_new_plain:
  assumes "shares_base st" "a \<notin> dom (commodity_heap st)" "b \<in> dom (base_heap st)"
  shows "shares_base (new_commodity st a (Plain (commodity_t_ctor p b i)))"
  unfolding shares_base_def
proof (intro allI impI)
  fix a' obj
  assume h: "commodity_heap (new_commodity st a (Plain (commodity_t_ctor p b i))) a' = Some obj"
  show "base (as_commodity obj)
          \<in> dom (base_heap (new_commodity st a (Plain (commodity_t_ctor p b i))))
        \<and> (case obj of
             Plain c \<Rightarrow> True
           | Annotated ac \<Rightarrow>
               annotated (super ac)
               \<and> (\<exists>r. commodity_heap (new_commodity st a (Plain (commodity_t_ctor p b i)))
                         (ptr ac) = Some r
                      \<and> base (as_commodity r) = base (super ac)))"
  proof (cases "a' = a")
    case True
    with h assms(3) show ?thesis
      by (auto simp: new_commodity_def commodity_t_ctor_def)
  next
    case False
    with h have old: "commodity_heap st a' = Some obj" by (simp add: new_commodity_def)
    from assms(1) old have b: "base (as_commodity obj) \<in> dom (base_heap st)"
      unfolding shares_base_def by blast
    show ?thesis
    proof (cases obj)
      case (Plain c)
      with b show ?thesis by (simp add: new_commodity_def)
    next
      case (Annotated ac)
      with assms(1) old obtain r where r: "annotated (super ac)"
        "commodity_heap st (ptr ac) = Some r" "base (as_commodity r) = base (super ac)"
        unfolding shares_base_def by fastforce
      from r(2) assms(2) have "ptr ac \<noteq> a" by auto
      with r b Annotated show ?thesis by (simp add: new_commodity_def)
    qed
  qed
qed

lemma shares_base_new_annotated:
  assumes "shares_base st" "a \<notin> dom (commodity_heap st)"
    and "annotated_commodity_t_ctor st p d i = Inr ac"
  shows "shares_base (new_commodity st a (Annotated ac))"
proof -
  from assms(3) obtain obj where o: "commodity_heap st p = Some obj"
    by (cases "commodity_heap st p") (auto simp: annotated_commodity_t_ctor_def)
  with assms(3) have ac: "base (super ac) = base (as_commodity obj)" "ptr ac = p"
    "annotated (super ac)"
    by (auto simp: annotated_commodity_t_ctor_def commodity_t_ctor_def)
  from o assms(2) have pa: "p \<noteq> a" by auto
  from assms(1) o have bo: "base (as_commodity obj) \<in> dom (base_heap st)"
    unfolding shares_base_def by blast
  show ?thesis
    unfolding shares_base_def
  proof (intro allI impI)
    fix a' obj'
    assume h: "commodity_heap (new_commodity st a (Annotated ac)) a' = Some obj'"
    show "base (as_commodity obj') \<in> dom (base_heap (new_commodity st a (Annotated ac)))
          \<and> (case obj' of
               Plain c \<Rightarrow> True
             | Annotated ac' \<Rightarrow>
                 annotated (super ac')
                 \<and> (\<exists>r. commodity_heap (new_commodity st a (Annotated ac)) (ptr ac') = Some r
                        \<and> base (as_commodity r) = base (super ac')))"
    proof (cases "a' = a")
      case True
      with h have "obj' = Annotated ac" by (simp add: new_commodity_def)
      with ac o pa bo show ?thesis by (simp add: new_commodity_def)
    next
      case False
      with h have old: "commodity_heap st a' = Some obj'" by (simp add: new_commodity_def)
      from assms(1) old have b: "base (as_commodity obj') \<in> dom (base_heap st)"
        unfolding shares_base_def by blast
      show ?thesis
      proof (cases obj')
        case (Plain c)
        with b show ?thesis by (simp add: new_commodity_def)
      next
        case (Annotated ac')
        with assms(1) old obtain r where r: "annotated (super ac')"
          "commodity_heap st (ptr ac') = Some r" "base (as_commodity r) = base (super ac')"
          unfolding shares_base_def by fastforce
        from r(2) assms(2) have "ptr ac' \<noteq> a" by auto
        with r b Annotated show ?thesis by (simp add: new_commodity_def)
      qed
    qed
  qed
qed

lemma shares_base_keys:
  assumes "shares_base st" "commodity_heap st a = Some obj"
  shows "shares_base (new_commodity st a (assign_keys obj i q k))"
  unfolding shares_base_def
proof (intro allI impI)
  fix a' obj'
  assume h: "commodity_heap (new_commodity st a (assign_keys obj i q k)) a' = Some obj'"
  have same_base: "\<exists>r'. commodity_heap (new_commodity st a (assign_keys obj i q k)) x = Some r'
                       \<and> base (as_commodity r') = base (as_commodity r)"
    if "commodity_heap st x = Some r" for x r
    using that assms(2) by (cases "x = a") (simp_all add: new_commodity_def)
  obtain old where old: "commodity_heap st a' = Some old"
    and shape: "obj' = old \<or> obj' = assign_keys old i q k"
    using h assms(2) by (cases "a' = a") (simp_all add: new_commodity_def)
  from assms(1) old have b: "base (as_commodity old) \<in> dom (base_heap st)"
    unfolding shares_base_def by blast
  from shape have bb: "base (as_commodity obj') = base (as_commodity old)" by auto
  have rest: "annotated (super ac')
              \<and> (\<exists>r. commodity_heap (new_commodity st a (assign_keys obj i q k)) (ptr ac') = Some r
                     \<and> base (as_commodity r) = base (super ac'))"
    if an: "obj' = Annotated ac'" for ac'
  proof -
    from shape an obtain ac0 where ac0: "old = Annotated ac0" "ptr ac' = ptr ac0"
      "annotated (super ac') = annotated (super ac0)" "base (super ac') = base (super ac0)"
      by (cases old) auto
    from assms(1) old ac0(1) obtain r where r: "annotated (super ac0)"
      "commodity_heap st (ptr ac0) = Some r" "base (as_commodity r) = base (super ac0)"
      unfolding shares_base_def by fastforce
    from same_base [OF r(2)] r ac0 show ?thesis by auto
  qed
  from b bb rest show "base (as_commodity obj')
          \<in> dom (base_heap (new_commodity st a (assign_keys obj i q k)))
        \<and> (case obj' of
             Plain c \<Rightarrow> True
           | Annotated ac \<Rightarrow>
               annotated (super ac)
               \<and> (\<exists>r. commodity_heap (new_commodity st a (assign_keys obj i q k)) (ptr ac)
                         = Some r
                      \<and> base (as_commodity r) = base (super ac)))"
    by (cases obj') (simp_all add: new_commodity_def)
qed

lemma shares_base_write:
  assumes "shares_base st" "write_base st c f = Inr st'"
  shows "shares_base st'"
proof -
  from assms(2) obtain obj b where w: "commodity_heap st c = Some obj"
    "base_heap st (base (as_commodity obj)) = Some b"
    "st' = st\<lparr>base_heap := (base_heap st)(base (as_commodity obj) \<mapsto> f b)\<rparr>"
    by (rule write_base_result)
  from w(3) have heaps: "commodity_heap st' = commodity_heap st"
    "dom (base_heap st) \<subseteq> dom (base_heap st')"
    by auto
  show ?thesis
    unfolding shares_base_def heaps(1)
    using assms(1) [unfolded shares_base_def] heaps(2) by blast
qed

lemma shares_base_pools:
  "shares_base st \<Longrightarrow> shares_base (st\<lparr>pool_heap := ph, default_pool := dp\<rparr>)"
  by (auto simp: shares_base_def split: commodity_obj.splits)

lemma shares_base_toggles:
  "shares_base st \<Longrightarrow> shares_base (st\<lparr>keep_price := kp, keep_date := kd, keep_tag := kt\<rparr>)"
  by (auto simp: shares_base_def split: commodity_obj.splits)

lemma reachable_shares_base: "reachable st \<Longrightarrow> shares_base st"
proof (induction rule: reachable.induct)
  case r_empty
  show ?case by (rule shares_base_empty)
next
  case (r_base st a b)
  then show ?case by (simp add: shares_base_new_base)
next
  case (r_plain st a b p i)
  then show ?case by (simp add: shares_base_new_plain)
next
  case (r_annotated st a p d i ac)
  then show ?case using shares_base_new_annotated by blast
next
  case (r_keys st a obj i q k)
  then show ?case by (simp add: shares_base_keys)
next
  case (r_write st c f st')
  then show ?case using shares_base_write by blast
next
  case (r_pools st ph dp)
  then show ?case by (simp add: shares_base_pools)
next
  case (r_toggles st kp kd kt)
  then show ?case by (simp add: shares_base_toggles)
qed

text \<open>
  Claim C9. In every state that the constructors and accessors of commodity.h produce,
  an object of class \<open>annotated_commodity_t\<close> has \<open>annotated\<close> set and has the \<open>base\<close>
  pointer of the commodity its \<open>ptr\<close> points to; hence both handles read the same
  precision, flags, name and note, and a precision, flags, name or note written through
  the annotated handle is what the referent reads, and one written through the referent
  is what the annotated handle reads; likewise for flags added or dropped.
\<close>

theorem annotated_commodity_shares_base:
  assumes "reachable st" and "commodity_heap st a = Some (Annotated ac)"
  shows "annotated (super ac)
       \<and> (\<exists>r. commodity_heap st (referent ac) = Some r
              \<and> base (as_commodity r) = base (super ac))
       \<and> (\<exists>st'. set_precision st a p = Inr st' \<and> precision_of st' (referent ac) = Inr p)
       \<and> (\<exists>st'. set_precision st (referent ac) p = Inr st' \<and> precision_of st' a = Inr p)
       \<and> (\<exists>st'. set_flags st a fl = Inr st' \<and> flags_of st' (referent ac) = Inr fl)
       \<and> (\<exists>st'. set_flags st (referent ac) fl = Inr st' \<and> flags_of st' a = Inr fl)
       \<and> (\<exists>st'. set_name st a n = Inr st' \<and> name_of st' (referent ac) = Inr n)
       \<and> (\<exists>st'. set_name st (referent ac) n = Inr st' \<and> name_of st' a = Inr n)
       \<and> (\<exists>st'. set_note st a t = Inr st' \<and> note_of st' (referent ac) = Inr t)
       \<and> (\<exists>st'. set_note st (referent ac) t = Inr st' \<and> note_of st' a = Inr t)
       \<and> (\<exists>st' fl0. flags_of st a = Inr fl0 \<and> add_flags st a fl = Inr st'
              \<and> flags_of st' (referent ac) = Inr (fl0 OR fl))
       \<and> (\<exists>st' fl0. flags_of st (referent ac) = Inr fl0
              \<and> drop_flags st (referent ac) fl = Inr st'
              \<and> flags_of st' a = Inr (fl0 AND NOT fl))
       \<and> precision_of st a = precision_of st (referent ac)
       \<and> flags_of st a = flags_of st (referent ac)
       \<and> name_of st a = name_of st (referent ac)
       \<and> note_of st a = note_of st (referent ac)"
proof -
  from assms have inv: "shares_base st" by (simp add: reachable_shares_base)
  with assms(2) obtain r where r: "annotated (super ac)"
    "commodity_heap st (ptr ac) = Some r" "base (as_commodity r) = base (super ac)"
    unfolding shares_base_def by fastforce
  from inv assms(2) obtain b where b: "base_heap st (base (super ac)) = Some b"
    unfolding shares_base_def by fastforce
  have e: "base (as_commodity r) = base (as_commodity (Annotated ac))"
    using r(3) by simp
  have ba: "base_heap st (base (as_commodity (Annotated ac))) = Some b"
    using b by simp
  have br: "base_heap st (base (as_commodity r)) = Some b"
    using b r(3) by simp
  have fwd: "\<exists>st'. write_base st a f = Inr st' \<and> read_base st' (ptr ac) field = Inr (field (f b))"
    for f and field :: "commodity_base_t \<Rightarrow> 'x"
    by (rule read_after_write [OF assms(2) r(2) e ba])
  have bwd: "\<exists>st'. write_base st (ptr ac) f = Inr st' \<and> read_base st' a field = Inr (field (f b))"
    for f and field :: "commodity_base_t \<Rightarrow> 'x"
    by (rule read_after_write [OF r(2) assms(2) e [symmetric] br])
  have rd: "read_base st a field = Inr (field b)" "read_base st (ptr ac) field = Inr (field b)"
    for field :: "commodity_base_t \<Rightarrow> 'x"
    using assms(2) r(2) ba br by (simp_all add: read_base_def)
  have setters:
    "\<exists>st'. set_precision st a p = Inr st' \<and> precision_of st' (referent ac) = Inr p"
    "\<exists>st'. set_precision st (referent ac) p = Inr st' \<and> precision_of st' a = Inr p"
    "\<exists>st'. set_flags st a fl = Inr st' \<and> flags_of st' (referent ac) = Inr fl"
    "\<exists>st'. set_flags st (referent ac) fl = Inr st' \<and> flags_of st' a = Inr fl"
    "\<exists>st'. set_name st a n = Inr st' \<and> name_of st' (referent ac) = Inr n"
    "\<exists>st'. set_name st (referent ac) n = Inr st' \<and> name_of st' a = Inr n"
    "\<exists>st'. set_note st a t = Inr st' \<and> note_of st' (referent ac) = Inr t"
    "\<exists>st'. set_note st (referent ac) t = Inr st' \<and> note_of st' a = Inr t"
    unfolding referent_def set_precision_def precision_of_def set_flags_def flags_of_def
      set_name_def name_of_def set_note_def note_of_def
    using fwd [of "\<lambda>b. b\<lparr>precision := p\<rparr>" precision] bwd [of "\<lambda>b. b\<lparr>precision := p\<rparr>" precision]
      fwd [of "\<lambda>b. b\<lparr>flags := fl\<rparr>" flags] bwd [of "\<lambda>b. b\<lparr>flags := fl\<rparr>" flags]
      fwd [of "\<lambda>b. b\<lparr>name := n\<rparr>" name] bwd [of "\<lambda>b. b\<lparr>name := n\<rparr>" name]
      fwd [of "\<lambda>b. b\<lparr>note_str := t\<rparr>" note_str] bwd [of "\<lambda>b. b\<lparr>note_str := t\<rparr>" note_str]
    by simp_all
  have add: "\<exists>st' fl0. flags_of st a = Inr fl0 \<and> add_flags st a fl = Inr st'
              \<and> flags_of st' (referent ac) = Inr (fl0 OR fl)"
    unfolding referent_def add_flags_def flags_of_def
    using fwd [of "\<lambda>b. b\<lparr>flags := flags b OR fl\<rparr>" flags] rd(1) [of flags] by auto
  have drop: "\<exists>st' fl0. flags_of st (referent ac) = Inr fl0
              \<and> drop_flags st (referent ac) fl = Inr st'
              \<and> flags_of st' a = Inr (fl0 AND NOT fl)"
    unfolding referent_def drop_flags_def flags_of_def
    using bwd [of "\<lambda>b. b\<lparr>flags := flags b AND NOT fl\<rparr>" flags] rd(2) [of flags] by auto
  have agree: "precision_of st a = precision_of st (referent ac)"
    "flags_of st a = flags_of st (referent ac)"
    "name_of st a = name_of st (referent ac)"
    "note_of st a = note_of st (referent ac)"
    unfolding referent_def precision_of_def flags_of_def name_of_def note_of_def
    by (simp_all add: rd)
  have shares: "\<exists>r. commodity_heap st (referent ac) = Some r
              \<and> base (as_commodity r) = base (super ac)"
    unfolding referent_def using r by simp
  from r(1) shares setters add drop agree show ?thesis by (intro conjI)
qed

lemma annotated_example_reachable: "reachable annotated_example"
  unfolding annotated_example_def
proof (rule r_annotated [where p = 1 and d = "\<lparr>price = None, date = None, tag = Some ''lot1''\<rparr>"
      and i = 2])
  show "reachable (new_commodity (new_base empty_state 1
          \<lparr>flags = 0, symbol = ''$'', precision = 2, name = None, note_str = None,
           history = None, smaller = None, larger = None\<rparr>) 1 (Plain (commodity_t_ctor 0 1 1)))"
    by (intro r_plain r_base r_empty) (simp_all add: new_base_def empty_state_def)
qed (simp_all add: annotated_commodity_t_ctor_def new_commodity_def new_base_def
       empty_state_def commodity_t_ctor_def annotation_t_copy_def copy_optional_amount_def)

theorem annotated_commodity_shares_base_witness:
  "(\<exists>st'. set_precision annotated_example 2 5 = Inr st' \<and> precision_of st' 1 = Inr 5)
   \<and> (\<exists>st'. add_flags annotated_example 1 4 = Inr st' \<and> flags_of st' 2 = Inr 4)"
proof -
  have obj: "commodity_heap annotated_example 2
      = Some (Annotated \<lparr>super = (commodity_t_ctor 0 1 2)\<lparr>annotated := True\<rparr>, ptr = 1,
                details = \<lparr>price = None, date = None, tag = Some ''lot1''\<rparr>\<rparr>)"
    by (simp add: annotated_example_def new_commodity_def)
  have "\<exists>st'. add_flags annotated_example 1 4 = Inr st' \<and> flags_of st' 2 = Inr 4"
    by (simp add: add_flags_def flags_of_def write_base_def read_base_def
        annotated_example_def new_commodity_def new_base_def empty_state_def
        commodity_t_ctor_def)
  with annotated_commodity_shares_base [OF annotated_example_reachable obj, of 5]
  show ?thesis by (simp add: referent_def)
qed

section \<open>Equality of amounts\<close>

text \<open>
  Claim C4. For amounts whose commodities resolve: when the commodities are distinct,
  \<open>a == b\<close> is false and raises nothing, whatever \<open>compare\<close> does on the pair, also
  where it throws \<open>IncompatibleCommodities\<close>; when the commodities are equal,
  \<open>a == b\<close> is the test \<open>compare(a, b) == 0\<close>, so it holds exactly when \<open>compare\<close>
  returns 0.
\<close>

theorem operator_eq_commodities:
  assumes "commodity st a = Inr ca" and "commodity st b = Inr cb"
  shows "(commodity_eq ann_eq st ca cb = Inr False
            \<longrightarrow> operator_eq cmp ann_eq st a b = Inr False)
       \<and> (commodity_eq ann_eq st ca cb = Inr True
            \<longrightarrow> operator_eq cmp ann_eq st a b = bind_result (cmp st a b) (\<lambda>n. Inr (n = 0))
              \<and> (operator_eq cmp ann_eq st a b = Inr True \<longleftrightarrow> cmp st a b = Inr 0))"
proof (intro conjI impI)
  assume "commodity_eq ann_eq st ca cb = Inr False"
  with assms show "operator_eq cmp ann_eq st a b = Inr False"
    by (simp add: operator_eq_def)
next
  assume "commodity_eq ann_eq st ca cb = Inr True"
  with assms show e: "operator_eq cmp ann_eq st a b = bind_result (cmp st a b) (\<lambda>n. Inr (n = 0))"
    by (simp add: operator_eq_def)
  show "operator_eq cmp ann_eq st a b = Inr True \<longleftrightarrow> cmp st a b = Inr 0"
    unfolding e by (cases "cmp st a b") simp_all
qed

theorem operator_eq_commodities_witness:
  "commodity_eq (\<lambda>st x y. Inr False) example_state 1 0 = Inr False
   \<and> operator_eq (\<lambda>st x y. Inl (Throw IncompatibleCommodities)) (\<lambda>st x y. Inr False)
        example_state
        \<lparr>quantity = Some \<lparr>val = 100, prec = 2, keep_prec = False\<rparr>, commodity_ptr = Some 1\<rparr>
        \<lparr>quantity = Some \<lparr>val = 1, prec = 0, keep_prec = False\<rparr>, commodity_ptr = None\<rparr>
       = Inr False
   \<and> commodity_eq (\<lambda>st x y. Inr False) example_state 1 1 = Inr True
   \<and> operator_eq (\<lambda>st x y. Inr 0) (\<lambda>st x y. Inr False) example_state
        \<lparr>quantity = Some \<lparr>val = 100, prec = 2, keep_prec = False\<rparr>, commodity_ptr = Some 1\<rparr>
        \<lparr>quantity = Some \<lparr>val = 1, prec = 0, keep_prec = False\<rparr>, commodity_ptr = Some 1\<rparr>
       = Inr True"
proof -
  have c1: "commodity example_state
      \<lparr>quantity = Some \<lparr>val = 100, prec = 2, keep_prec = False\<rparr>, commodity_ptr = Some 1\<rparr>
      = Inr 1"
    by (simp add: commodity_def has_commodity_def)
  have c0: "commodity example_state
      \<lparr>quantity = Some \<lparr>val = 1, prec = 0, keep_prec = False\<rparr>, commodity_ptr = None\<rparr>
      = Inr 0"
    by (simp add: commodity_def has_commodity_def)
  have c1': "commodity example_state
      \<lparr>quantity = Some \<lparr>val = 1, prec = 0, keep_prec = False\<rparr>, commodity_ptr = Some 1\<rparr>
      = Inr 1"
    by (simp add: commodity_def has_commodity_def)
  have d: "commodity_eq (\<lambda>st x y. Inr False) example_state 1 0 = Inr False"
    by (simp add: commodity_eq_def)
  have s: "commodity_eq (\<lambda>st x y. Inr False) example_state 1 1 = Inr True"
    by (simp add: commodity_eq_def)
  from operator_eq_commodities [OF c1 c0, of "\<lambda>st x y. Inr False"
      "\<lambda>st x y. Inl (Throw IncompatibleCommodities)"]
    operator_eq_commodities [OF c1 c1', of "\<lambda>st x y. Inr False" "\<lambda>st x y. Inr 0"] d s
  show ?thesis by simp
qed

section \<open>Rounding\<close>

lemma prec_rescale_to [simp]: "prec (rescale_to p q) = p"
  by (simp add: rescale_to_def Let_def)

lemma rescale_to_same: "prec q = p \<Longrightarrow> rescale_to p q = q"
  by (simp add: rescale_to_def)

lemma rescale_to_idem: "rescale_to p (rescale_to p q) = rescale_to p q"
  by (rule rescale_to_same) simp

lemma round_prec_idem: "round_prec (round_prec a p) p = round_prec a p"
  by (cases "quantity a") (simp_all add: round_prec_def rescale_to_idem)

lemma example_state_bases [simp]:
  "base_heap example_state (Suc 0)
     = Some \<lparr>flags = 0, symbol = ''$'', precision = 2, name = None, note_str = None,
             history = None, smaller = None, larger = None\<rparr>"
  by (simp add: example_state_def)

text \<open>
  Claim C7. Rounding to one precision twice is rounding to it once, in particular at the
  display precision of the amount's commodity. \<open>round()\<close> of an amount that has a
  commodity is \<open>round(p)\<close> at the precision \<open>p\<close> of that commodity; of an amount that
  has none it is the copy of the amount, which is the amount itself when it has a
  quantity or a NULL commodity pointer, and is the null amount when it has no quantity.
\<close>

theorem round_idempotent:
  "round_prec (round_prec a p) p = round_prec a p
   \<and> (has_commodity st a = Inr True \<and> commodity st a = Inr c \<and> precision_of st c = Inr p'
        \<longrightarrow> round_amt st a = Inr (round_prec a p')
          \<and> round_prec (round_prec a p') p' = round_prec a p')
   \<and> (has_commodity st a = Inr False \<longrightarrow> round_amt st a = Inr (amount_t_copy a))
   \<and> (quantity a \<noteq> None \<or> commodity_ptr a = None \<longrightarrow> amount_t_copy a = a)
   \<and> (quantity a = None \<longrightarrow> amount_t_copy a = amount_t_ctor)"
  by (simp add: round_prec_idem round_amt_def amount_t_copy_def amount_t_ctor_def)

theorem round_idempotent_witness:
  "round_amt example_state
     \<lparr>quantity = Some \<lparr>val = 123456, prec = 4, keep_prec = False\<rparr>, commodity_ptr = Some 1\<rparr>
     = Inr \<lparr>quantity = Some \<lparr>val = 1235, prec = 2, keep_prec = False\<rparr>,
            commodity_ptr = Some 1\<rparr>
   \<and> round_amt example_state
       \<lparr>quantity = Some \<lparr>val = 123456, prec = 4, keep_prec = False\<rparr>, commodity_ptr = None\<rparr>
     = Inr \<lparr>quantity = Some \<lparr>val = 123456, prec = 4, keep_prec = False\<rparr>,
            commodity_ptr = None\<rparr>"
proof -
  have h: "has_commodity example_state
      \<lparr>quantity = Some \<lparr>val = 123456, prec = 4, keep_prec = False\<rparr>, commodity_ptr = Some 1\<rparr>
      = Inr True"
    by (simp add: has_commodity_def)
  have c: "commodity example_state
      \<lparr>quantity = Some \<lparr>val = 123456, prec = 4, keep_prec = False\<rparr>, commodity_ptr = Some 1\<rparr>
      = Inr 1"
    by (simp add: commodity_def has_commodity_def)
  have p: "precision_of example_state 1 = Inr 2"
    by (simp add: precision_of_def read_base_def)
  have n: "has_commodity example_state
      \<lparr>quantity = Some \<lparr>val = 123456, prec = 4, keep_prec = False\<rparr>, commodity_ptr = None\<rparr>
      = Inr False"
    by (simp add: has_commodity_def)
  have r: "round_prec
      \<lparr>quantity = Some \<lparr>val = 123456, prec = 4, keep_prec = False\<rparr>, commodity_ptr = Some 1\<rparr> 2
      = \<lparr>quantity = Some \<lparr>val = 1235, prec = 2, keep_prec = False\<rparr>, commodity_ptr = Some 1\<rparr>"
    by (simp add: round_prec_def rescale_to_def Let_def)
  from round_idempotent [of
      "\<lparr>quantity = Some \<lparr>val = 123456, prec = 4, keep_prec = False\<rparr>, commodity_ptr = Some 1\<rparr>"
      2 example_state 1 2]
    round_idempotent [of
      "\<lparr>quantity = Some \<lparr>val = 123456, prec = 4, keep_prec = False\<rparr>, commodity_ptr = None\<rparr>"
      2 example_state 1 2]
    h c p n r
  show ?thesis by simp
qed

section \<open>Arithmetic of amounts\<close>

lemma is_null_ctor [simp]: "is_null st amount_t_ctor = Inr True"
  by (simp add: is_null_def has_commodity_def amount_t_ctor_def)








lemma example_state_annotated [simp]:
  "commodity_heap example_state 2
     = Some (Annotated
         \<lparr>super = \<lparr>base = 1, parent_ptr = 0, ident = 2, qualified_symbol = None,
                    mapping_key_str = Some ''$ (lot1)'', annotated = True\<rparr>,
          ptr = 1,
          details = \<lparr>price = None, date = None, tag = Some ''lot1''\<rparr>\<rparr>)"
  by (simp add: example_state_def)

lemma example_state_toggles [simp]:
  "keep_price example_state = False"
  "keep_date example_state = False"
  "keep_tag example_state = False"
  by (simp_all add: example_state_def)



section \<open>The null amount\<close>

lemma additive_null_left: "additive op ann_eq st amount_t_ctor a = Inr a"
  by (simp add: additive_def)

lemma additive_null_right:
  "is_null st a = Inr z \<Longrightarrow>
   additive op ann_eq st a amount_t_ctor = Inr (if z then amount_t_ctor else a)"
  by (simp add: additive_def)

lemma minus_self:
  assumes "quantity a = Some q"
    and "has_commodity st a = Inr False
         \<or> has_commodity st a = Inr True \<and> commodity st a = Inr c
             \<and> commodity_eq ann_eq st c c = Inr True"
  shows "additive bigint_sub ann_eq st a a
           = Inr \<lparr>quantity = Some \<lparr>val = 0, prec = prec q, keep_prec = keep_prec q\<rparr>,
                  commodity_ptr = commodity_ptr a\<rparr>"
  using assms
  by (auto simp: additive_def incompatible_def is_null_def bigint_sub_def
      quantity_or_zero_def)

text \<open>
  Claim C2. The null amount made by \<open>amount_t()\<close> combined with an amount \<open>a\<close> by
  \<open>+\<close>, \<open>-\<close> or \<open>*\<close>, on either side, gives \<open>a\<close> itself (and the null amount when
  \<open>a\<close> is null too); and \<open>a - a\<close> has the numerator 0, at the scale and with the
  commodity of \<open>a\<close>, for every \<open>a\<close> that has a quantity and whose commodity, if it has
  one, is equal to itself.
\<close>

theorem null_amount_identity:
  "operator_plus_eq ann_eq st amount_t_ctor a = Inr a
   \<and> operator_minus_eq ann_eq st amount_t_ctor a = Inr a
   \<and> operator_times_eq st amount_t_ctor a = Inr a
   \<and> (is_null st a = Inr False
        \<longrightarrow> operator_plus_eq ann_eq st a amount_t_ctor = Inr a
          \<and> operator_minus_eq ann_eq st a amount_t_ctor = Inr a
          \<and> operator_times_eq st a amount_t_ctor = Inr a)
   \<and> (is_null st a = Inr True
        \<longrightarrow> operator_plus_eq ann_eq st a amount_t_ctor = Inr amount_t_ctor
          \<and> operator_minus_eq ann_eq st a amount_t_ctor = Inr amount_t_ctor
          \<and> operator_times_eq st a amount_t_ctor = Inr amount_t_ctor)
   \<and> (quantity a = Some q
        \<and> (has_commodity st a = Inr False
           \<or> has_commodity st a = Inr True \<and> commodity st a = Inr c
               \<and> commodity_eq ann_eq st c c = Inr True)
        \<longrightarrow> operator_minus_eq ann_eq st a a
            = Inr \<lparr>quantity = Some \<lparr>val = 0, prec = prec q, keep_prec = keep_prec q\<rparr>,
                   commodity_ptr = commodity_ptr a\<rparr>)"
proof (intro conjI impI)
  show "operator_plus_eq ann_eq st amount_t_ctor a = Inr a"
    "operator_minus_eq ann_eq st amount_t_ctor a = Inr a"
    by (simp_all add: operator_plus_eq_def operator_minus_eq_def additive_null_left)
  show "operator_times_eq st amount_t_ctor a = Inr a"
    by (simp add: operator_times_eq_def)
next
  assume n: "is_null st a = Inr False"
  from additive_null_right [OF n]
  show "operator_plus_eq ann_eq st a amount_t_ctor = Inr a"
    "operator_minus_eq ann_eq st a amount_t_ctor = Inr a"
    by (simp_all add: operator_plus_eq_def operator_minus_eq_def)
  from n show "operator_times_eq st a amount_t_ctor = Inr a"
    by (simp add: operator_times_eq_def)
next
  assume n: "is_null st a = Inr True"
  from additive_null_right [OF n]
  show "operator_plus_eq ann_eq st a amount_t_ctor = Inr amount_t_ctor"
    "operator_minus_eq ann_eq st a amount_t_ctor = Inr amount_t_ctor"
    by (simp_all add: operator_plus_eq_def operator_minus_eq_def)
  from n show "operator_times_eq st a amount_t_ctor = Inr amount_t_ctor"
    by (simp add: operator_times_eq_def)
next
  assume "quantity a = Some q
        \<and> (has_commodity st a = Inr False
           \<or> has_commodity st a = Inr True \<and> commodity st a = Inr c
               \<and> commodity_eq ann_eq st c c = Inr True)"
  then show "operator_minus_eq ann_eq st a a
            = Inr \<lparr>quantity = Some \<lparr>val = 0, prec = prec q, keep_prec = keep_prec q\<rparr>,
                   commodity_ptr = commodity_ptr a\<rparr>"
    unfolding operator_minus_eq_def using minus_self [of a q st c ann_eq] by blast
qed

theorem null_amount_identity_witness:
  "operator_plus_eq (\<lambda>st x y. Inr False) example_state
     \<lparr>quantity = Some \<lparr>val = 100, prec = 2, keep_prec = False\<rparr>, commodity_ptr = Some 1\<rparr>
     amount_t_ctor
     = Inr \<lparr>quantity = Some \<lparr>val = 100, prec = 2, keep_prec = False\<rparr>,
            commodity_ptr = Some 1\<rparr>
   \<and> operator_times_eq example_state amount_t_ctor amount_t_ctor = Inr amount_t_ctor
   \<and> operator_minus_eq (\<lambda>st x y. Inr False) example_state
       \<lparr>quantity = Some \<lparr>val = 100, prec = 2, keep_prec = False\<rparr>, commodity_ptr = Some 1\<rparr>
       \<lparr>quantity = Some \<lparr>val = 100, prec = 2, keep_prec = False\<rparr>, commodity_ptr = Some 1\<rparr>
     = Inr \<lparr>quantity = Some \<lparr>val = 0, prec = 2, keep_prec = False\<rparr>,
            commodity_ptr = Some 1\<rparr>"
proof -
  have n: "is_null example_state
      \<lparr>quantity = Some \<lparr>val = 100, prec = 2, keep_prec = False\<rparr>, commodity_ptr = Some 1\<rparr>
      = Inr False"
    by (simp add: is_null_def)
  have h: "has_commodity example_state
      \<lparr>quantity = Some \<lparr>val = 100, prec = 2, keep_prec = False\<rparr>, commodity_ptr = Some 1\<rparr>
      = Inr True"
    by (simp add: has_commodity_def)
  have c: "commodity example_state
      \<lparr>quantity = Some \<lparr>val = 100, prec = 2, keep_prec = False\<rparr>, commodity_ptr = Some 1\<rparr>
      = Inr 1"
    by (simp add: commodity_def has_commodity_def)
  have e: "commodity_eq (\<lambda>st x y. Inr False) example_state 1 1 = Inr True"
    by (simp add: commodity_eq_def)
  from null_amount_identity [of "\<lambda>st x y. Inr False" example_state
      "\<lparr>quantity = Some \<lparr>val = 100, prec = 2, keep_prec = False\<rparr>, commodity_ptr = Some 1\<rparr>"
      "\<lparr>val = 100, prec = 2, keep_prec = False\<rparr>" 1]
    null_amount_identity [of "\<lambda>st x y. Inr False" example_state amount_t_ctor
      "\<lparr>val = 100, prec = 2, keep_prec = False\<rparr>" 1]
    n h c e
  show ?thesis by simp
qed

section \<open>Division\<close>

lemma is_null_no_quantity: "is_null st b = Inr True \<Longrightarrow> quantity b = None"
  by (cases "quantity b") (simp_all add: is_null_def)

text \<open>
  Claim C3. Division by an amount whose numerator is 0, and division by a null amount,
  fail with \<open>DivideByZero\<close> for every dividend: no value is returned.
\<close>

theorem divide_by_zero:
  "(quantity b = Some q \<and> val q = 0 \<longrightarrow> operator_div_eq st a b = Inl (Throw DivideByZero))
   \<and> (is_null st b = Inr True \<longrightarrow> operator_div_eq st a b = Inl (Throw DivideByZero))
   \<and> operator_div_eq st a amount_t_ctor = Inl (Throw DivideByZero)"
  using is_null_no_quantity [of st b]
  by (auto simp: operator_div_eq_def quantity_or_zero_def amount_t_ctor_def)

theorem divide_by_zero_witness:
  "operator_div_eq example_state
     \<lparr>quantity = Some \<lparr>val = 100, prec = 2, keep_prec = False\<rparr>, commodity_ptr = Some 1\<rparr>
     \<lparr>quantity = Some \<lparr>val = 0, prec = 3, keep_prec = False\<rparr>, commodity_ptr = Some 1\<rparr>
     = Inl (Throw DivideByZero)
   \<and> operator_div_eq example_state
       \<lparr>quantity = Some \<lparr>val = 0, prec = 0, keep_prec = False\<rparr>, commodity_ptr = None\<rparr>
       \<lparr>quantity = None, commodity_ptr = Some 0\<rparr>
     = Inl (Throw DivideByZero)"
proof -
  have n: "is_null example_state \<lparr>quantity = None, commodity_ptr = Some 0\<rparr> = Inr True"
    by (simp add: is_null_def has_commodity_def)
  from divide_by_zero [of
      "\<lparr>quantity = Some \<lparr>val = 0, prec = 3, keep_prec = False\<rparr>, commodity_ptr = Some 1\<rparr>"
      "\<lparr>val = 0, prec = 3, keep_prec = False\<rparr>" example_state
      "\<lparr>quantity = Some \<lparr>val = 100, prec = 2, keep_prec = False\<rparr>, commodity_ptr = Some 1\<rparr>"]
    divide_by_zero [of "\<lparr>quantity = None, commodity_ptr = Some 0\<rparr>"
      "\<lparr>val = 0, prec = 3, keep_prec = False\<rparr>" example_state
      "\<lparr>quantity = Some \<lparr>val = 0, prec = 0, keep_prec = False\<rparr>, commodity_ptr = None\<rparr>"]
    n
  show ?thesis by simp
qed

section \<open>The creator function \<open>exact\<close>\<close>

text \<open>
  \<open>exact\<close> hands the parser the flag \<open>AMOUNT_PARSE_NO_MIGRATE\<close> alone, on a default
  amount and the default pool, and returns a copy of the amount the parser leaves: what
  the returned amount carries beyond that is the parser's doing.
\<close>

lemma exact_is_parse_no_migrate:
  assumes "default_pool st = Some dp"
  shows "exact prs st str
           = bind_result (prs st dp amount_t_ctor str 1) (\<lambda>(temp, st'). Inr (amount_t_copy temp, st'))"
    and "AMOUNT_PARSE_NO_MIGRATE AND AMOUNT_PARSE_NO_REDUCE = 0"
  using assms
  by (simp_all add: exact_def parse_string_def AMOUNT_PARSE_NO_MIGRATE_def
      AMOUNT_PARSE_NO_REDUCE_def)

end
